theory Spec2Isabelle
  imports Complex_Main "HOL-Library.Sublist"
begin

section \<open>The persistence store of \<open>app.py\<close>\<close>

text \<open>
  The tables of \<open>DatabaseManager.init_database\<close>. A table is the list of its rows in
  insertion order; a column that SQLite may hold \<open>NULL\<close> in, and that some statement of
  the program leaves unset, is an \<open>option\<close>. Timestamps are opaque clock readings.
\<close>

type_synonym timestamp = nat

record user_row =
  u_id :: string
  u_username :: string
  u_password_hash :: string
  u_email :: "string option"
  u_created_at :: timestamp

record profile_row =
  p_id :: string
  p_user_id :: string
  p_name :: string
  p_skills :: "string option"
  p_experience :: "string option"
  p_summary :: "string option"
  p_target_positions :: "string option"
  p_resume_path :: "string option"
  p_created_at :: timestamp

text \<open>The dataclass \<open>Job\<close>; a row of the table \<open>jobs\<close> is a \<open>Job\<close> with its \<open>created_at\<close>.\<close>

record Job =
  job_id :: string
  job_title :: string
  job_company :: string
  job_location :: string
  job_description :: string
  job_url :: string
  job_salary_range :: string
  job_posted_date :: timestamp
  job_match_score :: rat
  job_source :: string

record job_row = Job +
  job_created_at :: timestamp

record application_row =
  a_id :: string
  a_job_id :: string
  a_profile_id :: string
  a_user_id :: string
  a_status :: "string option"
  a_applied_date :: "timestamp option"
  a_cover_letter :: "string option"
  a_custom_answers :: "string option"
  a_response_received :: bool
  a_notes :: "string option"
  a_created_at :: timestamp

text \<open>
  The three settings columns \<open>email_settings\<close>, \<open>automation_settings\<close> and
  \<open>notification_settings\<close> hold the text \<open>json.dumps\<close> made of a flat dictionary. The
  model keeps the dictionary that text denotes (\<open>json.loads\<close> of \<open>json.dumps\<close> of such a
  dictionary is the dictionary), as an association from keys to values.
\<close>

datatype jval = JStr string | JBool bool | JInt int | JReal rat | JNull

type_synonym jdict = "(string \<times> jval) list"

record settings_row =
  s_user_id :: string
  s_openai_api_key :: "string option"
  s_email_settings :: "jdict option"
  s_automation_settings :: "jdict option"
  s_notification_settings :: "jdict option"

record db =
  users :: "user_row list"
  profiles :: "profile_row list"
  jobs :: "job_row list"
  applications :: "application_row list"
  settings :: "settings_row list"

subsection \<open>\<open>DatabaseManager.execute_query\<close>\<close>

text \<open>
  \<open>execute_query\<close> runs one statement inside \<open>try\<close>. Any exception is logged and turned
  into \<open>False\<close> (into \<open>None\<close> with \<open>fetch=True\<close>); nothing was committed then, so the
  store is as before. A statement is a function on the store that returns \<open>None\<close> where
  SQLite raises for a violated constraint. The flag \<open>fault\<close> says that the engine raised
  for a reason outside the tables (the file cannot be opened, the disk, a lock).
\<close>

definition execute_query :: "bool \<Rightarrow> (db \<Rightarrow> db option) \<Rightarrow> db \<Rightarrow> bool \<times> db" where
  "execute_query fault stmt d =
     (if fault then (False, d)
      else case stmt d of None \<Rightarrow> (False, d) | Some d' \<Rightarrow> (True, d'))"

definition execute_query_fetch :: "bool \<Rightarrow> (db \<Rightarrow> 'r list) \<Rightarrow> db \<Rightarrow> 'r list option" where
  "execute_query_fetch fault query d = (if fault then None else Some (query d))"

section \<open>\<open>AuthManager\<close>\<close>

text \<open>
  \<open>hash_password\<close> is \<open>hashlib.sha256(password.encode()).hexdigest()\<close>. The digest is a
  library function; it is the parameter \<open>sha256_hex\<close>.
\<close>

definition hash_password :: "(string \<Rightarrow> string) \<Rightarrow> string \<Rightarrow> string" where
  "hash_password sha256_hex password = sha256_hex password"

text \<open>
  \<open>INSERT INTO users (id, username, password_hash, email)\<close>: \<open>id\<close> is the primary key
  and \<open>username\<close> is \<open>UNIQUE\<close>, so the statement raises when a row holds either already.
\<close>

definition sql_insert_user :: "user_row \<Rightarrow> db \<Rightarrow> db option" where
  "sql_insert_user r d =
     (if list_ex (\<lambda>x. u_id x = u_id r \<or> u_username x = u_username r) (users d) then None
      else Some (d\<lparr>users := users d @ [r]\<rparr>))"

definition register_user ::
  "(string \<Rightarrow> string) \<Rightarrow> bool \<Rightarrow> string \<Rightarrow> timestamp \<Rightarrow> string \<Rightarrow> string \<Rightarrow> string \<Rightarrow> db
   \<Rightarrow> bool \<times> db" where
  "register_user sha256_hex fault uuid4 sql_now username password email d =
     (let user_id = uuid4;
          password_hash = hash_password sha256_hex password
      in execute_query fault
           (sql_insert_user \<lparr>u_id = user_id, u_username = username,
              u_password_hash = password_hash, u_email = Some email,
              u_created_at = sql_now\<rparr>) d)"

text \<open>\<open>SELECT id FROM users WHERE username = ? AND password_hash = ?\<close>\<close>

definition sql_select_user_id :: "string \<Rightarrow> string \<Rightarrow> db \<Rightarrow> string list" where
  "sql_select_user_id username password_hash d =
     map u_id (filter (\<lambda>x. u_username x = username \<and> u_password_hash x = password_hash) (users d))"

text \<open>\<open>return result[0][0] if result else None\<close>: \<open>None\<close> and the empty list are both falsy.\<close>

definition authenticate_user ::
  "(string \<Rightarrow> string) \<Rightarrow> bool \<Rightarrow> string \<Rightarrow> string \<Rightarrow> db \<Rightarrow> string option" where
  "authenticate_user sha256_hex fault username password d =
     (let password_hash = hash_password sha256_hex password
      in case execute_query_fetch fault (sql_select_user_id username password_hash) d of
           None \<Rightarrow> None
         | Some [] \<Rightarrow> None
         | Some (row # _) \<Rightarrow> Some row)"

section \<open>Strings as Python handles them\<close>

definition nl :: string where
  "nl = [CHR 0x0A]"

text \<open>
  \<open>str.strip()\<close> drops leading and trailing whitespace. Strings are byte lists; the
  whitespace modelled is the ASCII one (tab to carriage return, the four separators
  \<open>0x1C\<close> to \<open>0x1F\<close>, and the blank).
\<close>

definition is_space :: "char \<Rightarrow> bool" where
  "is_space c = (let n = (of_char c :: nat) in (9 \<le> n \<and> n \<le> 13) \<or> (28 \<le> n \<and> n \<le> 32))"

definition strip :: "string \<Rightarrow> string" where
  "strip s = rev (dropWhile is_space (rev (dropWhile is_space s)))"

text \<open>\<open>s.split(',')\<close> with an explicit separator: one more piece than separators.\<close>

fun split_on :: "char \<Rightarrow> string \<Rightarrow> string list" where
  "split_on sep [] = [[]]"
| "split_on sep (c # cs) =
     (if c = sep then [] # split_on sep cs
      else case split_on sep cs of w # ws \<Rightarrow> (c # w) # ws | [] \<Rightarrow> [[c]])"

text \<open>\<open>sep.join(xs)\<close>\<close>

fun join :: "string \<Rightarrow> string list \<Rightarrow> string" where
  "join sep [] = []"
| "join sep [x] = x"
| "join sep (x # y # ys) = x @ sep @ join sep (y # ys)"

text \<open>An f-string prints a value that is \<open>None\<close> as the text \<open>None\<close>.\<close>

definition str_of :: "string option \<Rightarrow> string" where
  "str_of v = (case v of None \<Rightarrow> ''None'' | Some s \<Rightarrow> s)"

text \<open>
  A triple-quoted f-string of a method body: a newline, then each line behind the
  indentation of the source and closed by a newline, then the indentation before the
  closing quotes.
\<close>

definition block :: "nat \<Rightarrow> string list \<Rightarrow> string" where
  "block n ls = nl @ concat (map (\<lambda>l. replicate n CHR '' '' @ l @ nl) ls) @ replicate n CHR '' ''"

section \<open>\<open>JobProfile\<close> and \<open>AIAssistant\<close>\<close>

record JobProfile =
  prof_id :: string
  prof_name :: string
  prof_skills :: "string list"
  prof_experience :: "string option"
  prof_summary :: "string option"
  prof_target_positions :: "string list"
  prof_created_at :: timestamp

text \<open>
  One call of \<open>client.chat.completions.create\<close> followed by
  \<open>response.choices[0].message.content\<close>: the call or the indexing raises, or there is a
  content, which the API may give as \<open>None\<close>. The collaborator is any function of the
  number of the call and of the prompt. \<open>client\<close> is \<open>None\<close> when the constructor failed.
\<close>

datatype reply = Raises | Content "string option"

type_synonym chat = "nat \<Rightarrow> string \<Rightarrow> reply"

record AIAssistant =
  api_key :: string
  client :: "chat option"

subsection \<open>\<open>_fallback_cover_letter\<close>\<close>

definition fallback_cover_letter :: "Job \<Rightarrow> JobProfile \<Rightarrow> string" where
  "fallback_cover_letter job profile =
     ''Dear Hiring Manager,'' @ nl @ nl
     @ ''I am writing to express my strong interest in the '' @ job_title job
     @ '' position at '' @ job_company job
     @ ''. With my background in '' @ str_of (prof_experience profile)
     @ '' and expertise in '' @ join '', '' (take 3 (prof_skills profile))
     @ '', I am excited about the opportunity to contribute to your team.'' @ nl @ nl
     @ str_of (prof_summary profile) @ nl @ nl
     @ ''I am particularly drawn to this role because it aligns perfectly with my career goals and allows me to leverage my skills in a meaningful way. I would welcome the opportunity to discuss how my experience can benefit your organization.''
     @ nl @ nl
     @ ''Thank you for your consideration.'' @ nl @ nl
     @ ''Sincerely,'' @ nl
     @ ''[Your Name]''"

subsection \<open>\<open>generate_cover_letter\<close>\<close>

definition cover_letter_prompt :: "Job \<Rightarrow> JobProfile \<Rightarrow> string" where
  "cover_letter_prompt job profile = block 12
     [''Write a professional cover letter for the following job application:'',
      '''',
      ''Job Title: '' @ job_title job,
      ''Company: '' @ job_company job,
      ''Job Description: '' @ take 500 (job_description job) @ ''...'',
      '''',
      ''Candidate Profile:'',
      ''Name: Professional Candidate'',
      ''Skills: '' @ join '', '' (prof_skills profile),
      ''Experience: '' @ str_of (prof_experience profile),
      ''Summary: '' @ str_of (prof_summary profile),
      '''',
      ''Make it personalized, professional, and highlight relevant skills.'',
      ''Keep it under 300 words.'']"

text \<open>
  Every exception inside \<open>generate_cover_letter\<close> is caught there and answered with the
  fallback, so the function returns a string; the result type keeps the exceptional
  side that the caller's own \<open>try\<close> provides for.
\<close>

definition generate_cover_letter :: "AIAssistant \<Rightarrow> nat \<Rightarrow> Job \<Rightarrow> JobProfile \<Rightarrow> unit + string" where
  "generate_cover_letter a n job profile =
     (case client a of
        None \<Rightarrow> Inr (fallback_cover_letter job profile)
      | Some c \<Rightarrow>
          (case c n (cover_letter_prompt job profile) of
             Raises \<Rightarrow> Inr (fallback_cover_letter job profile)
           | Content None \<Rightarrow> Inr (fallback_cover_letter job profile)
           | Content (Some content) \<Rightarrow> Inr (strip content)))"

subsection \<open>\<open>generate_qa_answers\<close>\<close>

definition qa_prompt :: "string \<Rightarrow> Job \<Rightarrow> JobProfile \<Rightarrow> string" where
  "qa_prompt question job profile = block 16
     [''Answer this job application question professionally:'',
      ''Question: '' @ question,
      '''',
      ''Context:'',
      ''Job: '' @ job_title job @ '' at '' @ job_company job,
      ''Your background: '' @ str_of (prof_summary profile),
      ''Your skills: '' @ join '', '' (prof_skills profile),
      '''',
      ''Provide a concise, professional answer (2-3 sentences).'']"

text \<open>
  The \<open>for\<close> loop stands inside one \<open>try\<close>: the first call that raises (or whose content
  is \<open>None\<close>, on which \<open>.strip()\<close> raises) ends the loop, and the answers stored so far
  are returned. \<open>n\<close> is the number of the next call.
\<close>

fun qa_loop ::
  "chat \<Rightarrow> nat \<Rightarrow> Job \<Rightarrow> JobProfile \<Rightarrow> string list \<Rightarrow> (string \<rightharpoonup> string) \<Rightarrow> (string \<rightharpoonup> string)" where
  "qa_loop c n job profile [] answers = answers"
| "qa_loop c n job profile (question # questions) answers =
     (case c n (qa_prompt question job profile) of
        Raises \<Rightarrow> answers
      | Content None \<Rightarrow> answers
      | Content (Some content) \<Rightarrow>
          qa_loop c (Suc n) job profile questions (answers(question \<mapsto> strip content)))"

definition generate_qa_answers ::
  "AIAssistant \<Rightarrow> nat \<Rightarrow> string list \<Rightarrow> Job \<Rightarrow> JobProfile \<Rightarrow> (string \<rightharpoonup> string)" where
  "generate_qa_answers a n questions job profile =
     (case client a of
        None \<Rightarrow> Map.empty
      | Some c \<Rightarrow> qa_loop c n job profile questions Map.empty)"

text \<open>A call fails when it raises or has no content.\<close>

definition fails :: "reply \<Rightarrow> bool" where
  "fails r = (case r of Raises \<Rightarrow> True | Content None \<Rightarrow> True | Content (Some content) \<Rightarrow> False)"

subsection \<open>\<open>calculate_job_match_score\<close>\<close>

definition score_prompt :: "Job \<Rightarrow> JobProfile \<Rightarrow> string" where
  "score_prompt job profile = block 12
     [''Rate the job match on a scale of 0.0 to 1.0 based on how well the candidate fits the job:'',
      '''',
      ''Job: '' @ job_title job @ '' at '' @ job_company job,
      ''Job Description: '' @ take 300 (job_description job) @ ''...'',
      '''',
      ''Candidate:'',
      ''Skills: '' @ join '', '' (prof_skills profile),
      ''Experience: '' @ str_of (prof_experience profile),
      ''Target Positions: '' @ join '', '' (prof_target_positions profile),
      '''',
      ''Return only a decimal number between 0.0 and 1.0.'']"

text \<open>
  \<open>re.findall(r'0?\.\d+|[01]', score_text)[0]\<close> is the leftmost match of the pattern.
  At one position the first alternative is tried with the optional \<open>0\<close> taken, then
  with it left out, then the second alternative. \<open>\d\<close> is modelled on the ASCII digits.
\<close>

definition is_digit :: "char \<Rightarrow> bool" where
  "is_digit c = (let n = (of_char c :: nat) in 48 \<le> n \<and> n \<le> 57)"

text \<open>\<open>\.\d+\<close> at the start of \<open>s\<close>, greedy.\<close>

definition match_fraction :: "string \<Rightarrow> string option" where
  "match_fraction s =
     (case s of
        c # d # rest \<Rightarrow>
          if c = CHR ''.'' \<and> is_digit d then Some (c # d # takeWhile is_digit rest) else None
      | _ \<Rightarrow> None)"

definition match_here :: "string \<Rightarrow> string option" where
  "match_here s =
     (case s of
        [] \<Rightarrow> None
      | c # cs \<Rightarrow>
          (case (if c = CHR ''0'' then match_fraction cs else None) of
             Some m \<Rightarrow> Some (c # m)
           | None \<Rightarrow>
               (case match_fraction s of
                  Some m \<Rightarrow> Some m
                | None \<Rightarrow> if c = CHR ''0'' \<or> c = CHR ''1'' then Some [c] else None)))"

fun findall_first :: "string \<Rightarrow> string option" where
  "findall_first [] = None"
| "findall_first (c # cs) =
     (case match_here (c # cs) of Some m \<Rightarrow> Some m | None \<Rightarrow> findall_first cs)"

text \<open>
  \<open>float\<close> of a matched token, as the exact decimal it writes. Python rounds that
  decimal to the nearest double; rounding is monotone and keeps 0 and 1, so a bound by
  0 and 1 on the decimal is a bound on the double.
\<close>

definition digit_val :: "char \<Rightarrow> nat" where
  "digit_val c = of_char c - 48"

fun fraction_value :: "string \<Rightarrow> rat" where
  "fraction_value [] = 0"
| "fraction_value (d # ds) = (of_nat (digit_val d) + fraction_value ds) / 10"

definition float_of :: "string \<Rightarrow> rat" where
  "float_of token =
     of_nat (foldl (\<lambda>a d. 10 * a + digit_val d) 0 (takeWhile (\<lambda>c. c \<noteq> CHR ''.'') token))
     + fraction_value (drop 1 (dropWhile (\<lambda>c. c \<noteq> CHR ''.'') token))"

definition calculate_job_match_score :: "AIAssistant \<Rightarrow> nat \<Rightarrow> Job \<Rightarrow> JobProfile \<Rightarrow> rat" where
  "calculate_job_match_score a n job profile =
     (case client a of
        None \<Rightarrow> 1 / 2
      | Some c \<Rightarrow>
          (case c n (score_prompt job profile) of
             Raises \<Rightarrow> 1 / 2
           | Content None \<Rightarrow> 1 / 2
           | Content (Some content) \<Rightarrow>
               (case findall_first (strip content) of
                  None \<Rightarrow> 1 / 2
                | Some token \<Rightarrow> float_of token)))"

section \<open>\<open>NotificationManager\<close>\<close>

text \<open>What \<open>st.error\<close>, \<open>st.success\<close> and \<open>st.warning\<close> show, in the order of the calls.\<close>

datatype ui = St_error string | St_success string | St_warning string

definition is_warning :: "ui \<Rightarrow> bool" where
  "is_warning m = (case m of St_warning t \<Rightarrow> True | _ \<Rightarrow> False)"

definition is_error :: "ui \<Rightarrow> bool" where
  "is_error m = (case m of St_error t \<Rightarrow> True | _ \<Rightarrow> False)"

text \<open>\<open>d.get(key)\<close> and the truth value Python gives the result in a condition.\<close>

definition dict_get :: "jdict \<Rightarrow> string \<Rightarrow> jval option" where
  "dict_get d k = map_of d k"

definition truthy :: "jval option \<Rightarrow> bool" where
  "truthy v =
     (case v of
        None \<Rightarrow> False
      | Some (JStr s) \<Rightarrow> s \<noteq> []
      | Some (JBool b) \<Rightarrow> b
      | Some (JInt i) \<Rightarrow> i \<noteq> 0
      | Some (JReal r) \<Rightarrow> r \<noteq> 0
      | Some JNull \<Rightarrow> False)"

text \<open>
  What \<open>send_email_notification\<close> hands to \<open>smtplib\<close>. The mail system is any function
  from that to \<open>None\<close> (sent) or the text of the exception raised on the way (building
  the message, connecting, \<open>starttls\<close>, \<open>login\<close>, sending).
\<close>

record mail =
  m_server :: jval
  m_port :: nat
  m_login :: "jval option"
  m_password :: "jval option"
  m_to :: string
  m_subject :: string
  m_body :: string

type_synonym smtp = "mail \<Rightarrow> string option"

definition send_email_notification :: "smtp \<Rightarrow> jdict \<Rightarrow> string \<Rightarrow> string \<Rightarrow> string \<Rightarrow> ui list" where
  "send_email_notification server email_settings subject body to_email =
     (case server \<lparr>m_server = (case dict_get email_settings ''smtp_server'' of
                                   None \<Rightarrow> JStr ''smtp.gmail.com'' | Some v \<Rightarrow> v),
                    m_port = 587,
                    m_login = dict_get email_settings ''from_email'',
                    m_password = dict_get email_settings ''password'',
                    m_to = to_email, m_subject = subject, m_body = body\<rparr> of
        None \<Rightarrow> []
      | Some e \<Rightarrow> [St_warning (''Email notification failed: '' @ e)])"

section \<open>\<open>JobAutomationApp\<close>\<close>

text \<open>\<open>st.session_state\<close>: the user that is logged in and the assistant, if one was set.\<close>

record session =
  ss_user_id :: string
  ss_ai_assistant :: "AIAssistant option"

subsection \<open>Settings\<close>

text \<open>
  The dictionary \<open>get_user_settings\<close> returns and \<open>save_user_settings\<close> takes: four
  possible keys, a key that is absent is \<open>None\<close>.
\<close>

record settings_dict =
  sd_openai_api_key :: "string option"
  sd_email_settings :: "jdict option"
  sd_automation_settings :: "jdict option"
  sd_notification_settings :: "jdict option"

definition empty_settings :: settings_dict where
  "empty_settings = \<lparr>sd_openai_api_key = None, sd_email_settings = None,
     sd_automation_settings = None, sd_notification_settings = None\<rparr>"

text \<open>\<open>d.get(key, default)\<close> on a key of that dictionary.\<close>

definition get_or :: "'a option \<Rightarrow> 'a \<Rightarrow> 'a" where
  "get_or v dflt = (case v of None \<Rightarrow> dflt | Some x \<Rightarrow> x)"

text \<open>\<open>current_settings.update(settings)\<close>\<close>

definition dict_update :: "settings_dict \<Rightarrow> settings_dict \<Rightarrow> settings_dict" where
  "dict_update current new =
     \<lparr>sd_openai_api_key =
        (case sd_openai_api_key new of None \<Rightarrow> sd_openai_api_key current | Some v \<Rightarrow> Some v),
      sd_email_settings =
        (case sd_email_settings new of None \<Rightarrow> sd_email_settings current | Some v \<Rightarrow> Some v),
      sd_automation_settings =
        (case sd_automation_settings new of None \<Rightarrow> sd_automation_settings current
         | Some v \<Rightarrow> Some v),
      sd_notification_settings =
        (case sd_notification_settings new of None \<Rightarrow> sd_notification_settings current
         | Some v \<Rightarrow> Some v)\<rparr>"

text \<open>\<open>SELECT openai_api_key, ... FROM settings WHERE user_id = ?\<close>\<close>

definition sql_select_settings :: "string \<Rightarrow> db \<Rightarrow> settings_row list" where
  "sql_select_settings uid d = filter (\<lambda>r. s_user_id r = uid) (settings d)"

text \<open>\<open>row[0] or ''\<close>, and \<open>json.loads(row[i]) if row[i] else {}\<close>.\<close>

definition get_user_settings :: "bool \<Rightarrow> string \<Rightarrow> db \<Rightarrow> settings_dict" where
  "get_user_settings fault uid d =
     (case execute_query_fetch fault (sql_select_settings uid) d of
        None \<Rightarrow> empty_settings
      | Some [] \<Rightarrow> empty_settings
      | Some (row # _) \<Rightarrow>
          \<lparr>sd_openai_api_key = Some (get_or (s_openai_api_key row) ''''),
           sd_email_settings = Some (get_or (s_email_settings row) []),
           sd_automation_settings = Some (get_or (s_automation_settings row) []),
           sd_notification_settings = Some (get_or (s_notification_settings row) [])\<rparr>)"

text \<open>
  \<open>INSERT OR REPLACE INTO settings\<close>: \<open>user_id\<close> is the primary key, so the row of that
  user, if there is one, is deleted and the new row is inserted.
\<close>

definition sql_replace_settings :: "settings_row \<Rightarrow> db \<Rightarrow> db option" where
  "sql_replace_settings r d =
     Some (d\<lparr>settings := filter (\<lambda>x. s_user_id x \<noteq> s_user_id r) (settings d) @ [r]\<rparr>)"

text \<open>
  \<open>save_user_settings\<close> reads (first flag) and writes (second flag).
\<close>

definition save_user_settings :: "bool \<Rightarrow> bool \<Rightarrow> string \<Rightarrow> settings_dict \<Rightarrow> db \<Rightarrow> bool \<times> db" where
  "save_user_settings fault_read fault_write uid new d =
     (let current_settings = dict_update (get_user_settings fault_read uid d) new
      in execute_query fault_write
           (sql_replace_settings
              \<lparr>s_user_id = uid,
               s_openai_api_key = Some (get_or (sd_openai_api_key current_settings) ''''),
               s_email_settings = Some (get_or (sd_email_settings current_settings) []),
               s_automation_settings = Some (get_or (sd_automation_settings current_settings) []),
               s_notification_settings =
                 Some (get_or (sd_notification_settings current_settings) [])\<rparr>) d)"

text \<open>\<open>SELECT email FROM users WHERE id = ?\<close>; an empty or \<open>NULL\<close> address is \<open>None\<close>.\<close>

definition sql_select_email :: "string \<Rightarrow> db \<Rightarrow> string option list" where
  "sql_select_email uid d = map u_email (filter (\<lambda>r. u_id r = uid) (users d))"

definition get_user_email :: "bool \<Rightarrow> string \<Rightarrow> db \<Rightarrow> string option" where
  "get_user_email fault uid d =
     (case execute_query_fetch fault (sql_select_email uid) d of
        None \<Rightarrow> None
      | Some [] \<Rightarrow> None
      | Some (None # _) \<Rightarrow> None
      | Some (Some e # _) \<Rightarrow> if e = [] then None else Some e)"

subsection \<open>Profiles\<close>

text \<open>The dictionaries \<open>get_user_profiles\<close> builds from the rows of the user.\<close>

record profile_data =
  pd_id :: string
  pd_name :: string
  pd_skills :: "string option"
  pd_experience :: "string option"
  pd_summary :: "string option"
  pd_target_positions :: "string option"

definition sql_select_profiles :: "string \<Rightarrow> db \<Rightarrow> profile_row list" where
  "sql_select_profiles uid d = filter (\<lambda>r. p_user_id r = uid) (profiles d)"

definition get_user_profiles :: "bool \<Rightarrow> string \<Rightarrow> db \<Rightarrow> profile_data list" where
  "get_user_profiles fault uid d =
     (case execute_query_fetch fault (sql_select_profiles uid) d of
        None \<Rightarrow> []
      | Some rows \<Rightarrow>
          map (\<lambda>row. \<lparr>pd_id = p_id row, pd_name = p_name row, pd_skills = p_skills row,
                       pd_experience = p_experience row, pd_summary = p_summary row,
                       pd_target_positions = p_target_positions row\<rparr>) rows)"

subsection \<open>\<open>apply_to_job\<close>\<close>

text \<open>
  What one run of \<open>apply_to_job\<close> takes from outside the program: the identifier
  \<open>uuid.uuid4()\<close> draws, the clocks, the number of the collaborator's next call, whether
  the store raises on each of the three statements, and the mail system.
\<close>

record apply_env =
  e_uuid4 :: string
  e_now :: timestamp
  e_applied_date :: timestamp
  e_sql_now :: timestamp
  e_call :: nat
  e_fault_insert :: bool
  e_fault_settings :: bool
  e_fault_email :: bool
  e_smtp :: smtp

text \<open>
  \<open>INSERT INTO applications (id, job_id, profile_id, user_id, status, applied_date,
  cover_letter)\<close>: \<open>id\<close> is the primary key. SQLite checks a foreign key only when the
  connection turns that on, which \<open>execute_query\<close> does not. The columns the statement
  does not name take their defaults.
\<close>

definition sql_insert_application ::
  "string \<Rightarrow> string \<Rightarrow> string \<Rightarrow> string \<Rightarrow> string \<Rightarrow> timestamp \<Rightarrow> string \<Rightarrow> timestamp
   \<Rightarrow> db \<Rightarrow> db option" where
  "sql_insert_application app_id jid pid uid status applied_date cover_letter sql_now d =
     (if list_ex (\<lambda>x. a_id x = app_id) (applications d) then None
      else Some (d\<lparr>applications := applications d @
             [\<lparr>a_id = app_id, a_job_id = jid, a_profile_id = pid, a_user_id = uid,
               a_status = Some status, a_applied_date = Some applied_date,
               a_cover_letter = Some cover_letter, a_custom_answers = None,
               a_response_received = False, a_notes = None, a_created_at = sql_now\<rparr>]\<rparr>))"

definition comma_list :: "string option \<Rightarrow> string list" where
  "comma_list v = (case v of None \<Rightarrow> [] | Some s \<Rightarrow> if s = [] then [] else split_on CHR '','' s)"

definition notify_applied :: "apply_env \<Rightarrow> string \<Rightarrow> Job \<Rightarrow> db \<Rightarrow> ui list" where
  "notify_applied e uid job d =
     (let user_settings = get_user_settings (e_fault_settings e) uid d;
          email_settings = get_or (sd_email_settings user_settings) []
      in if truthy (dict_get email_settings ''enabled'') then
           (case get_user_email (e_fault_email e) uid d of
              None \<Rightarrow> []
            | Some user_email \<Rightarrow>
                send_email_notification (e_smtp e) email_settings
                  (''Job Application Submitted - '' @ job_title job)
                  (''Your application for '' @ job_title job @ '' at '' @ job_company job
                     @ '' has been submitted successfully.'')
                  user_email)
         else [])"

text \<open>The \<open>JobProfile\<close> object that \<open>apply_to_job\<close> builds from the dictionary it found.\<close>

definition job_profile_of :: "apply_env \<Rightarrow> profile_data \<Rightarrow> JobProfile" where
  "job_profile_of e pdata =
     \<lparr>prof_id = pd_id pdata, prof_name = pd_name pdata,
      prof_skills = comma_list (pd_skills pdata),
      prof_experience = pd_experience pdata,
      prof_summary = pd_summary pdata,
      prof_target_positions = comma_list (pd_target_positions pdata),
      prof_created_at = e_now e\<rparr>"

text \<open>
  The cover letter of \<open>apply_to_job\<close>: the empty string, unless the session holds an
  assistant; then what \<open>generate_cover_letter\<close> returns, or a short letter if that call
  raised.
\<close>

definition cover_letter_for :: "session \<Rightarrow> nat \<Rightarrow> Job \<Rightarrow> JobProfile \<Rightarrow> string" where
  "cover_letter_for ss n job profile =
     (case ss_ai_assistant ss of
        None \<Rightarrow> []
      | Some a \<Rightarrow>
          (case generate_cover_letter a n job profile of
             Inr letter \<Rightarrow> letter
           | Inl _ \<Rightarrow>
               ''Dear Hiring Manager,'' @ nl @ nl @ ''I am interested in the ''
               @ job_title job @ '' position at '' @ job_company job @ ''.''
               @ nl @ nl @ ''Best regards''))"

definition apply_to_job ::
  "apply_env \<Rightarrow> session \<Rightarrow> Job \<Rightarrow> string \<Rightarrow> profile_data list \<Rightarrow> db \<Rightarrow> ui list \<times> db" where
  "apply_to_job e ss job selected_profile_name profiles_list d =
     (case find (\<lambda>p. pd_name p = selected_profile_name) profiles_list of
        None \<Rightarrow> ([St_error ''Profile not found''], d)
      | Some pdata \<Rightarrow>
          (let profile = job_profile_of e pdata;
               cover_letter = cover_letter_for ss (e_call e) job profile;
               app_id = e_uuid4 e
           in case execute_query (e_fault_insert e)
                     (sql_insert_application app_id (job_id job) (pd_id pdata) (ss_user_id ss)
                        ''applied'' (e_applied_date e) cover_letter (e_sql_now e)) d of
                (True, d') \<Rightarrow>
                  (St_success (''Successfully applied to '' @ job_title job @ '' at ''
                               @ job_company job @ ''!'')
                   # notify_applied e (ss_user_id ss) job d', d')
              | (False, d') \<Rightarrow> ([St_error ''Failed to submit application''], d')))"

text \<open>
  The generation service is down for a call when the assistant has no client or the
  call fails.
\<close>

definition generation_down :: "AIAssistant \<Rightarrow> nat \<Rightarrow> Job \<Rightarrow> JobProfile \<Rightarrow> bool" where
  "generation_down a n job profile =
     (case client a of
        None \<Rightarrow> True
      | Some c \<Rightarrow> fails (c n (cover_letter_prompt job profile)))"

subsection \<open>\<open>update_application_status\<close>\<close>

text \<open>\<open>UPDATE applications SET status = ?, notes = ? WHERE id = ? AND user_id = ?\<close>\<close>

definition sql_update_application :: "string \<Rightarrow> string \<Rightarrow> string \<Rightarrow> string \<Rightarrow> db \<Rightarrow> db option" where
  "sql_update_application status notes app_id uid d =
     Some (d\<lparr>applications :=
             map (\<lambda>r. if a_id r = app_id \<and> a_user_id r = uid
                       then r\<lparr>a_status := Some status, a_notes := Some notes\<rparr> else r)
               (applications d)\<rparr>)"

definition update_application_status ::
  "bool \<Rightarrow> string \<Rightarrow> string \<Rightarrow> string \<Rightarrow> string \<Rightarrow> db \<Rightarrow> bool \<times> db" where
  "update_application_status fault uid app_id status notes d =
     execute_query fault (sql_update_application status notes app_id uid) d"

text \<open>
  The button \<open>Update\<close> of \<open>show_applications_page\<close>, the one caller: it does not look at
  the result.
\<close>

definition update_button ::
  "bool \<Rightarrow> string \<Rightarrow> string \<Rightarrow> string \<Rightarrow> string \<Rightarrow> db \<Rightarrow> ui list \<times> db" where
  "update_button fault uid app_id new_status notes d =
     ([St_success ''Application updated!''],
      snd (update_application_status fault uid app_id new_status notes d))"

subsection \<open>\<open>delete_user_account\<close>\<close>

definition sql_delete_applications :: "string \<Rightarrow> db \<Rightarrow> db option" where
  "sql_delete_applications uid d =
     Some (d\<lparr>applications := filter (\<lambda>r. a_user_id r \<noteq> uid) (applications d)\<rparr>)"

definition sql_delete_profiles :: "string \<Rightarrow> db \<Rightarrow> db option" where
  "sql_delete_profiles uid d =
     Some (d\<lparr>profiles := filter (\<lambda>r. p_user_id r \<noteq> uid) (profiles d)\<rparr>)"

definition sql_delete_settings :: "string \<Rightarrow> db \<Rightarrow> db option" where
  "sql_delete_settings uid d =
     Some (d\<lparr>settings := filter (\<lambda>r. s_user_id r \<noteq> uid) (settings d)\<rparr>)"

definition sql_delete_user :: "string \<Rightarrow> db \<Rightarrow> db option" where
  "sql_delete_user uid d = Some (d\<lparr>users := filter (\<lambda>r. u_id r \<noteq> uid) (users d)\<rparr>)"

text \<open>
  Four statements, each through \<open>execute_query\<close>, whose result is not looked at; one
  flag for each statement. (The session is cleared afterwards; it is not part of the
  store.)
\<close>

definition delete_user_account :: "bool \<Rightarrow> bool \<Rightarrow> bool \<Rightarrow> bool \<Rightarrow> string \<Rightarrow> db \<Rightarrow> db" where
  "delete_user_account f1 f2 f3 f4 uid d =
     (let d1 = snd (execute_query f1 (sql_delete_applications uid) d);
          d2 = snd (execute_query f2 (sql_delete_profiles uid) d1);
          d3 = snd (execute_query f3 (sql_delete_settings uid) d2)
      in snd (execute_query f4 (sql_delete_user uid) d3))"

subsection \<open>\<open>export_user_data\<close>\<close>

text \<open>
  The rows of \<open>get_user_applications\<close>: the applications of the user joined with their
  job and their profile, latest \<open>applied_date\<close> first (\<open>NULL\<close> last); rows of one
  date stay in the order of the table.
\<close>

record application_view =
  av_id :: string
  av_status :: "string option"
  av_applied_date :: "timestamp option"
  av_cover_letter :: "string option"
  av_notes :: "string option"
  av_response_received :: bool
  av_job_title :: string
  av_company :: string
  av_profile_name :: string

definition date_key :: "timestamp option \<Rightarrow> nat" where
  "date_key t = (case t of None \<Rightarrow> 0 | Some n \<Rightarrow> Suc n)"

definition sql_select_applications :: "string \<Rightarrow> db \<Rightarrow> application_view list" where
  "sql_select_applications uid d =
     sort_key (\<lambda>v. - int (date_key (av_applied_date v)))
       (concat (map (\<lambda>a. concat (map (\<lambda>j. concat (map (\<lambda>p.
          if a_user_id a = uid \<and> a_job_id a = job_id j \<and> a_profile_id a = p_id p
          then [\<lparr>av_id = a_id a, av_status = a_status a, av_applied_date = a_applied_date a,
                  av_cover_letter = a_cover_letter a, av_notes = a_notes a,
                  av_response_received = a_response_received a,
                  av_job_title = job_title j, av_company = job_company j,
                  av_profile_name = p_name p\<rparr>]
          else []) (profiles d))) (jobs d))) (applications d)))"

definition get_user_applications :: "bool \<Rightarrow> string \<Rightarrow> db \<Rightarrow> application_view list" where
  "get_user_applications fault uid d =
     (case execute_query_fetch fault (sql_select_applications uid) d of
        None \<Rightarrow> []
      | Some rows \<Rightarrow> rows)"

text \<open>\<open>settings.items()\<close>: the keys that are present, with their values.\<close>

datatype sval = SStr string | SDict jdict

definition settings_items :: "settings_dict \<Rightarrow> (string \<times> sval) list" where
  "settings_items s =
     (case sd_openai_api_key s of None \<Rightarrow> [] | Some v \<Rightarrow> [(''openai_api_key'', SStr v)])
     @ (case sd_email_settings s of None \<Rightarrow> [] | Some v \<Rightarrow> [(''email_settings'', SDict v)])
     @ (case sd_automation_settings s of None \<Rightarrow> []
        | Some v \<Rightarrow> [(''automation_settings'', SDict v)])
     @ (case sd_notification_settings s of None \<Rightarrow> []
        | Some v \<Rightarrow> [(''notification_settings'', SDict v)])"

record export_data =
  ex_profiles :: "profile_data list"
  ex_applications :: "application_view list"
  ex_settings :: "(string \<times> sval) list"
  ex_exported_at :: timestamp

text \<open>
  \<open>export_user_data\<close>: three reads (one flag each), then the document that is offered
  for download. The comprehension drops the key \<open>openai_api_key\<close> and nothing else.
\<close>

definition export_user_data :: "bool \<Rightarrow> bool \<Rightarrow> bool \<Rightarrow> timestamp \<Rightarrow> string \<Rightarrow> db \<Rightarrow> export_data" where
  "export_user_data f1 f2 f3 now uid d =
     (let profiles_list = get_user_profiles f1 uid d;
          applications_list = get_user_applications f2 uid d;
          user_settings = get_user_settings f3 uid d
      in \<lparr>ex_profiles = profiles_list,
          ex_applications = applications_list,
          ex_settings = filter (\<lambda>(k, v). k \<noteq> ''openai_api_key'') (settings_items user_settings),
          ex_exported_at = now\<rparr>)"

text \<open>Every string the document holds under \<open>settings\<close>.\<close>

definition jval_strings :: "jval \<Rightarrow> string list" where
  "jval_strings v = (case v of JStr s \<Rightarrow> [s] | _ \<Rightarrow> [])"

definition sval_strings :: "sval \<Rightarrow> string list" where
  "sval_strings v =
     (case v of SStr s \<Rightarrow> [s] | SDict j \<Rightarrow> concat (map (\<lambda>(k, x). jval_strings x) j))"

definition exported_settings_strings :: "export_data \<Rightarrow> string list" where
  "exported_settings_strings x = concat (map (\<lambda>(k, v). sval_strings v) (ex_settings x))"

section \<open>Stores and inputs of the examples\<close>

definition db0 :: db where
  "db0 = \<lparr>users = [], profiles = [], jobs = [], applications = [], settings = []\<rparr>"

definition job_J :: Job where
  "job_J = \<lparr>job_id = ''j1'', job_title = ''Backend Engineer'', job_company = ''Acme'',
     job_location = ''Remote'', job_description = ''Build services'',
     job_url = ''https://example.com/job/1'', job_salary_range = ''50,000 - 80,000'',
     job_posted_date = 0, job_match_score = 4 / 5, job_source = ''indeed''\<rparr>"

definition pd_P :: profile_data where
  "pd_P = \<lparr>pd_id = ''p1'', pd_name = ''P'', pd_skills = Some ''Python,SQL'',
     pd_experience = Some ''web services'', pd_summary = Some ''I build backends.'',
     pd_target_positions = Some ''Backend Engineer''\<rparr>"

definition profile_P :: JobProfile where
  "profile_P = \<lparr>prof_id = ''p1'', prof_name = ''P'', prof_skills = [''Python'', ''SQL''],
     prof_experience = Some ''web services'', prof_summary = Some ''I build backends.'',
     prof_target_positions = [''Backend Engineer''], prof_created_at = 0\<rparr>"

text \<open>A collaborator that raises on call \<open>k\<close> and answers every other call.\<close>

definition fails_at :: "nat \<Rightarrow> chat" where
  "fails_at k n prompt = (if n = k then Raises else Content (Some ''Yes.''))"

text \<open>A collaborator that rates every job \<open>5.0\<close>.\<close>

definition rates_five :: chat where
  "rates_five n prompt = Content (Some ''5.0'')"

text \<open>A store in which user \<open>u1\<close> has saved an API key and the email settings.\<close>

definition db_S :: db where
  "db_S = db0\<lparr>settings :=
     [\<lparr>s_user_id = ''u1'', s_openai_api_key = Some ''sk-secret'',
       s_email_settings = Some [(''from_email'', JStr ''ann@x.org''),
          (''password'', JStr ''hunter2''), (''smtp_server'', JStr ''smtp.gmail.com''),
          (''enabled'', JBool True)],
       s_automation_settings = None, s_notification_settings = None\<rparr>]\<rparr>"

text \<open>A mail system that sends every mail, and one that refuses every connection.\<close>

definition mail_sent :: smtp where
  "mail_sent m = None"

definition mail_down :: smtp where
  "mail_down m = Some ''Connection refused''"

definition env0 :: apply_env where
  "env0 = \<lparr>e_uuid4 = ''a1'', e_now = 1, e_applied_date = 1, e_sql_now = 1, e_call = 0,
     e_fault_insert = False, e_fault_settings = False, e_fault_email = False,
     e_smtp = mail_sent\<rparr>"

text \<open>An assistant whose constructor failed, and a session with no assistant.\<close>

definition assistant_down :: AIAssistant where
  "assistant_down = \<lparr>api_key = ''k'', client = None\<rparr>"

definition session_plain :: session where
  "session_plain = \<lparr>ss_user_id = ''u1'', ss_ai_assistant = None\<rparr>"

definition session_down :: session where
  "session_down = \<lparr>ss_user_id = ''u1'', ss_ai_assistant = Some assistant_down\<rparr>"

text \<open>A store with one application, which belongs to \<open>bob\<close>.\<close>

definition db_B :: db where
  "db_B = db0\<lparr>applications :=
     [\<lparr>a_id = ''a7'', a_job_id = ''j1'', a_profile_id = ''p9'', a_user_id = ''bob'',
       a_status = Some ''applied'', a_applied_date = Some 1, a_cover_letter = Some '''',
       a_custom_answers = None, a_response_received = False, a_notes = None,
       a_created_at = 1\<rparr>]\<rparr>"

text \<open>An update that gives one category only, \<open>automation_settings\<close>.\<close>

definition new_automation :: settings_dict where
  "new_automation = \<lparr>sd_openai_api_key = None, sd_email_settings = None,
     sd_automation_settings = Some [(''auto_apply'', JBool True), (''daily_limit'', JInt 10)],
     sd_notification_settings = None\<rparr>"

text \<open>The same store with the account of \<open>bob\<close>.\<close>

definition db_D :: db where
  "db_D = db_B\<lparr>users :=
     [\<lparr>u_id = ''bob'', u_username = ''bob'', u_password_hash = ''h'',
       u_email = Some ''bob@x.org'', u_created_at = 1\<rparr>]\<rparr>"

text \<open>The row that the \<open>INSERT\<close> of \<open>apply_to_job\<close> writes, and the store that holds it.\<close>

definition new_application :: "apply_env \<Rightarrow> session \<Rightarrow> Job \<Rightarrow> profile_data \<Rightarrow> application_row" where
  "new_application e ss job pdata =
     \<lparr>a_id = e_uuid4 e, a_job_id = job_id job, a_profile_id = pd_id pdata,
      a_user_id = ss_user_id ss, a_status = Some ''applied'',
      a_applied_date = Some (e_applied_date e),
      a_cover_letter = Some (cover_letter_for ss (e_call e) job (job_profile_of e pdata)),
      a_custom_answers = None, a_response_received = False, a_notes = None,
      a_created_at = e_sql_now e\<rparr>"

definition inserted :: "apply_env \<Rightarrow> session \<Rightarrow> Job \<Rightarrow> profile_data \<Rightarrow> db \<Rightarrow> db" where
  "inserted e ss job pdata d =
     d\<lparr>applications := applications d @ [new_application e ss job pdata]\<rparr>"

section \<open>Registration and login\<close>

lemma sql_insert_user_fresh:
  assumes "sql_insert_user r d = Some d'"
  shows "users d' = users d @ [r]"
    and "filter (\<lambda>x. u_username x = u_username r) (users d) = []"
  using assms
  by (auto simp: sql_insert_user_def list_ex_iff filter_empty_conv split: if_splits)

lemma register_user_row:
  assumes "register_user H fault uid t u p e d = (True, d')"
  shows "\<exists>r. sql_insert_user r d = Some d' \<and> u_id r = uid \<and> u_username r = u
             \<and> u_password_hash r = hash_password H p"
  using assms
  by (auto simp: register_user_def execute_query_def Let_def split: if_splits option.splits)

text \<open>
  C10. If \<open>register_user username password email\<close> returns \<open>True\<close>, then
  \<open>authenticate_user username password\<close> on the store it left, when the store answers
  the query, returns the user id that the registration stored: the login hashes the
  password with the same function, and no other row has that username.
\<close>

theorem register_then_authenticate:
  assumes "register_user H fault uid t u p e d = (True, d')"
  shows "authenticate_user H False u p d' = Some uid"
proof -
  from register_user_row [OF assms] obtain r where
    ins: "sql_insert_user r d = Some d'" and id: "u_id r = uid" and
    name: "u_username r = u" and hash: "u_password_hash r = hash_password H p"
    by blast
  have old: "filter (\<lambda>x. u_username x = u \<and> u_password_hash x = hash_password H p) (users d) = []"
    using sql_insert_user_fresh(2) [OF ins] name
    by (auto simp: filter_empty_conv)
  have "sql_select_user_id u (hash_password H p) d' = [uid]"
    using sql_insert_user_fresh(1) [OF ins] old id name hash
    by (simp add: sql_select_user_id_def)
  then show ?thesis
    by (simp add: authenticate_user_def execute_query_fetch_def)
qed

theorem register_then_authenticate_witness:
  "register_user rev False ''u1'' 0 ''ann'' ''secret1'' ''ann@x.org'' db0
     = (True, db0\<lparr>users := [\<lparr>u_id = ''u1'', u_username = ''ann'',
          u_password_hash = ''1terces'', u_email = Some ''ann@x.org'', u_created_at = 0\<rparr>]\<rparr>)
   \<and> authenticate_user rev False ''ann'' ''secret1''
        (db0\<lparr>users := [\<lparr>u_id = ''u1'', u_username = ''ann'',
          u_password_hash = ''1terces'', u_email = Some ''ann@x.org'', u_created_at = 0\<rparr>]\<rparr>)
     = Some ''u1''"
proof -
  have reg: "register_user rev False ''u1'' 0 ''ann'' ''secret1'' ''ann@x.org'' db0
     = (True, db0\<lparr>users := [\<lparr>u_id = ''u1'', u_username = ''ann'',
          u_password_hash = ''1terces'', u_email = Some ''ann@x.org'', u_created_at = 0\<rparr>]\<rparr>)"
    by (simp add: register_user_def execute_query_def sql_insert_user_def hash_password_def
        db0_def)
  show ?thesis
    using reg register_then_authenticate [OF reg] by simp
qed

section \<open>The match score\<close>

text \<open>
  Every token that the pattern matches is \<open>0\<close>, \<open>1\<close>, or a decimal fraction with or
  without a leading \<open>0\<close>, so the score lies between 0 and 1 whatever the collaborator
  replies.
\<close>

lemma digit_val_le: "is_digit c \<Longrightarrow> digit_val c \<le> 9"
  unfolding is_digit_def digit_val_def Let_def by arith

lemma fraction_value_bounds:
  "list_all is_digit ds \<Longrightarrow> 0 \<le> fraction_value ds \<and> fraction_value ds < 1"
proof (induction ds)
  case Nil
  then show ?case by simp
next
  case (Cons d ds)
  then have ih: "0 \<le> fraction_value ds" "fraction_value ds < 1" by simp_all
  from Cons.prems have "digit_val d \<le> 9" by (simp add: digit_val_le)
  then have "(of_nat (digit_val d) :: rat) \<le> 9" by (metis of_nat_le_iff of_nat_numeral)
  with ih show ?case by simp
qed

lemma match_fraction_shape:
  "match_fraction s = Some m \<Longrightarrow> \<exists>ds. m = CHR ''.'' # ds \<and> list_all is_digit ds"
  by (auto simp: match_fraction_def list_all_iff split: list.splits if_splits
      dest: set_takeWhileD)

lemma float_of_fraction: "float_of (CHR ''.'' # ds) = fraction_value ds"
  by (simp add: float_of_def)

lemma float_of_zero_fraction: "float_of (CHR ''0'' # CHR ''.'' # ds) = fraction_value ds"
  by (simp add: float_of_def digit_val_def)

lemma match_here_bounds:
  assumes "match_here s = Some m"
  shows "0 \<le> float_of m \<and> float_of m \<le> 1"
proof (cases s)
  case Nil
  with assms show ?thesis by (simp add: match_here_def)
next
  case (Cons c cs)
  consider (a) ds where "m = CHR ''0'' # CHR ''.'' # ds" "list_all is_digit ds"
    | (b) ds where "m = CHR ''.'' # ds" "list_all is_digit ds"
    | (c) "m = [CHR ''0'']" | (d) "m = [CHR ''1'']"
    using assms Cons
    by (auto simp: match_here_def split: option.splits if_splits dest!: match_fraction_shape)
  then show ?thesis
  proof cases
    case a
    then show ?thesis using fraction_value_bounds [of ds] by (simp add: float_of_zero_fraction)
  next
    case b
    then show ?thesis using fraction_value_bounds [of ds] by (simp add: float_of_fraction)
  next
    case c
    then show ?thesis by (simp add: float_of_def digit_val_def)
  next
    case d
    then show ?thesis by (simp add: float_of_def digit_val_def)
  qed
qed

lemma findall_first_bounds:
  "findall_first s = Some m \<Longrightarrow> 0 \<le> float_of m \<and> float_of m \<le> 1"
proof (induction s)
  case Nil
  then show ?case by simp
next
  case (Cons c cs)
  show ?case
  proof (cases "match_here (c # cs)")
    case None
    with Cons show ?thesis by simp
  next
    case (Some m')
    with Cons.prems have "m' = m" by simp
    with Some show ?thesis by (simp add: match_here_bounds)
  qed
qed

lemma match_score_in_range:
  "0 \<le> calculate_job_match_score a n job profile
   \<and> calculate_job_match_score a n job profile \<le> 1"
  by (auto simp: calculate_job_match_score_def split: option.splits reply.splits
      dest: findall_first_bounds)

text \<open>
  C2. \<open>calculate_job_match_score\<close> is to answer a reply that is not a number between 0
  and 1 with the default 0.5, never with 0. The pattern is searched anywhere in the
  reply, so it finds \<open>.0\<close> inside \<open>5.0\<close>: for a collaborator that replies \<open>5.0\<close> the score
  is 0.
\<close>

theorem match_score_of_5_0:
  "calculate_job_match_score \<lparr>api_key = ''k'', client = Some rates_five\<rparr> 0 job_J profile_P = 0"
  by (simp add: calculate_job_match_score_def rates_five_def strip_def is_space_def
      match_here_def match_fraction_def is_digit_def float_of_def digit_val_def)

section \<open>The export\<close>

text \<open>The key \<open>openai_api_key\<close> is never part of the exported settings.\<close>

lemma map_of_filter_key: "map_of (filter (\<lambda>(k, v). k \<noteq> x) xs) x = None"
  by (induction xs) auto

lemma export_drops_api_key:
  "map_of (ex_settings (export_user_data f1 f2 f3 now uid d)) ''openai_api_key'' = None"
  by (simp add: export_user_data_def map_of_filter_key)

text \<open>
  C3. The exported document is to hold neither the AI credential nor the email
  credential. For a user who saved email settings, the settings of the export hold the
  dictionary \<open>email_settings\<close> whole, the password \<open>hunter2\<close> in it.
\<close>

theorem export_holds_email_password:
  "ex_settings (export_user_data False False False 7 ''u1'' db_S) =
     [(''email_settings'', SDict [(''from_email'', JStr ''ann@x.org''),
          (''password'', JStr ''hunter2''), (''smtp_server'', JStr ''smtp.gmail.com''),
          (''enabled'', JBool True)]),
      (''automation_settings'', SDict []),
      (''notification_settings'', SDict [])]"
  by (simp add: export_user_data_def get_user_settings_def execute_query_fetch_def
      sql_select_settings_def db_S_def db0_def settings_items_def get_or_def)

section \<open>Answers to the questions of a form\<close>

lemma qa_loop_dom: "dom (qa_loop c n job profile qs m) \<subseteq> dom m \<union> set qs"
proof (induction qs arbitrary: n m)
  case Nil
  then show ?case by simp
next
  case (Cons q qs)
  show ?case
  proof (cases "c n (qa_prompt q job profile)")
    case Raises
    then show ?thesis by auto
  next
    case (Content t)
    show ?thesis
    proof (cases t)
      case None
      with Content show ?thesis by auto
    next
      case (Some x)
      have "dom (qa_loop c (Suc n) job profile qs (m(q \<mapsto> strip x)))
              \<subseteq> dom (m(q \<mapsto> strip x)) \<union> set qs"
        by (rule Cons.IH)
      also have "\<dots> = dom m \<union> set (q # qs)" by simp
      finally show ?thesis using Content Some by simp
    qed
  qed
qed

lemma qa_loop_stops:
  "fails (c (n + length qs1) (qa_prompt q job profile)) \<Longrightarrow>
   qa_loop c n job profile (qs1 @ q # qs2) m = qa_loop c n job profile qs1 m"
proof (induction qs1 arbitrary: n m)
  case Nil
  then show ?case by (simp add: fails_def split: reply.splits option.splits)
next
  case (Cons a qs1)
  from Cons.prems have f: "fails (c (Suc n + length qs1) (qa_prompt q job profile))" by simp
  show ?case
  proof (cases "c n (qa_prompt a job profile)")
    case Raises
    then show ?thesis by simp
  next
    case (Content t)
    show ?thesis
    proof (cases t)
      case None
      with Content show ?thesis by simp
    next
      case (Some x)
      have "qa_loop c n job profile ((a # qs1) @ q # qs2) m
              = qa_loop c (Suc n) job profile (qs1 @ q # qs2) (m(a \<mapsto> strip x))"
        using Content Some by simp
      also have "\<dots> = qa_loop c (Suc n) job profile qs1 (m(a \<mapsto> strip x))"
        by (rule Cons.IH [OF f])
      also have "\<dots> = qa_loop c n job profile (a # qs1) m"
        using Content Some by simp
      finally show ?thesis .
    qed
  qed
qed

lemma qa_loop_all:
  "(\<forall>i<length qs. \<not> fails (c (n + i) (qa_prompt (qs ! i) job profile))) \<Longrightarrow>
   dom (qa_loop c n job profile qs m) = dom m \<union> set qs"
proof (induction qs arbitrary: n m)
  case Nil
  then show ?case by simp
next
  case (Cons q qs)
  from Cons.prems have first: "\<not> fails (c n (qa_prompt q job profile))" by fastforce
  have rest: "\<forall>i<length qs. \<not> fails (c (Suc n + i) (qa_prompt (qs ! i) job profile))"
  proof (intro allI impI)
    fix i assume "i < length qs"
    then have "Suc i < length (q # qs)" by simp
    with Cons.prems have "\<not> fails (c (n + Suc i) (qa_prompt ((q # qs) ! Suc i) job profile))"
      by blast
    then show "\<not> fails (c (Suc n + i) (qa_prompt (qs ! i) job profile))" by simp
  qed
  from first obtain x where x: "c n (qa_prompt q job profile) = Content (Some x)"
    by (auto simp: fails_def split: reply.splits option.splits)
  have "dom (qa_loop c (Suc n) job profile qs (m(q \<mapsto> strip x)))
          = dom (m(q \<mapsto> strip x)) \<union> set qs"
    by (rule Cons.IH [OF rest])
  also have "\<dots> = dom m \<union> set (q # qs)" by simp
  finally show ?case using x by simp
qed

text \<open>
  C4, as the code has it. \<open>generate_qa_answers\<close> returns a mapping whose keys are among
  the questions, and the empty mapping when there is no client. The questions are not
  answered independently: when the call for a question fails, the result is the one for
  the questions before it, whatever follows. When no call fails, every question has
  an answer.
\<close>

theorem generate_qa_answers_prefix:
  "dom (generate_qa_answers a n qs job profile) \<subseteq> set qs
   \<and> (client a = None \<longrightarrow> generate_qa_answers a n qs job profile = Map.empty)
   \<and> (\<forall>c. client a = Some c \<and> fails (c (n + length qs1) (qa_prompt q job profile)) \<longrightarrow>
        generate_qa_answers a n (qs1 @ q # qs2) job profile
          = generate_qa_answers a n qs1 job profile)
   \<and> (\<forall>c. client a = Some c
          \<and> (\<forall>i<length qs. \<not> fails (c (n + i) (qa_prompt (qs ! i) job profile))) \<longrightarrow>
        dom (generate_qa_answers a n qs job profile) = set qs)"
proof (intro conjI allI impI)
  show "dom (generate_qa_answers a n qs job profile) \<subseteq> set qs"
    using qa_loop_dom [of _ n job profile qs Map.empty]
    by (auto simp: generate_qa_answers_def split: option.splits)
next
  assume "client a = None"
  then show "generate_qa_answers a n qs job profile = Map.empty"
    by (simp add: generate_qa_answers_def)
next
  fix c
  assume "client a = Some c \<and> fails (c (n + length qs1) (qa_prompt q job profile))"
  then show "generate_qa_answers a n (qs1 @ q # qs2) job profile
          = generate_qa_answers a n qs1 job profile"
    by (simp add: generate_qa_answers_def qa_loop_stops)
next
  fix c
  assume "client a = Some c
          \<and> (\<forall>i<length qs. \<not> fails (c (n + i) (qa_prompt (qs ! i) job profile)))"
  then show "dom (generate_qa_answers a n qs job profile) = set qs"
    using qa_loop_all [of qs c n job profile Map.empty]
    by (simp add: generate_qa_answers_def)
qed

theorem generate_qa_answers_prefix_witness:
  "client \<lparr>api_key = ''k'', client = Some (fails_at 1)\<rparr> = Some (fails_at 1)
   \<and> fails (fails_at 1 (0 + length [''q1'']) (qa_prompt ''q2'' job_J profile_P))
   \<and> generate_qa_answers \<lparr>api_key = ''k'', client = Some (fails_at 1)\<rparr> 0
        ([''q1''] @ ''q2'' # [''q3'']) job_J profile_P
      = generate_qa_answers \<lparr>api_key = ''k'', client = Some (fails_at 1)\<rparr> 0 [''q1'']
          job_J profile_P
   \<and> dom (generate_qa_answers \<lparr>api_key = ''k'', client = Some (fails_at 1)\<rparr> 0 [''q1'']
          job_J profile_P) = {''q1''}"
proof -
  have c: "client \<lparr>api_key = ''k'', client = Some (fails_at 1)\<rparr> = Some (fails_at 1)"
    by simp
  have f: "fails (fails_at 1 (0 + length [''q1'']) (qa_prompt ''q2'' job_J profile_P))"
    by (simp add: fails_def fails_at_def)
  have g: "\<forall>i<length [''q1'']. \<not> fails (fails_at 1 (0 + i) (qa_prompt ([''q1''] ! i) job_J profile_P))"
    by (simp add: fails_def fails_at_def)
  show ?thesis
    using c f g
      generate_qa_answers_prefix [of "\<lparr>api_key = ''k'', client = Some (fails_at 1)\<rparr>" 0
        "[''q1'']" job_J profile_P "[''q1'']" "''q2''" "[''q3'']"]
    by auto
qed

text \<open>
  C4 as stated fails: the collaborator is down for the first call only, and the second
  question, which it would answer, is left without an answer.
\<close>

theorem one_failure_blocks_later_questions:
  "generate_qa_answers \<lparr>api_key = ''k'', client = Some (fails_at 0)\<rparr> 0 [''q1'', ''q2'']
       job_J profile_P ''q2'' = None
   \<and> fails_at 0 1 (qa_prompt ''q2'' job_J profile_P) = Content (Some ''Yes.'')"
  by (simp add: generate_qa_answers_def fails_at_def)

section \<open>Applying to a job\<close>

lemma sublist_skip: "sublist xs ys \<Longrightarrow> sublist xs (zs @ ys)"
proof -
  assume "sublist xs ys"
  then obtain ps ss where "ys = ps @ xs @ ss" by (auto simp: sublist_def)
  then have "zs @ ys = (zs @ ps) @ xs @ ss" by simp
  then show ?thesis unfolding sublist_def by blast
qed

lemma fallback_has_title: "sublist (job_title job) (fallback_cover_letter job profile)"
  unfolding fallback_cover_letter_def
  by (rule sublist_skip, rule sublist_skip, rule sublist_skip, rule sublist_skip,
      rule sublist_append_rightI)

lemma fallback_has_company: "sublist (job_company job) (fallback_cover_letter job profile)"
  unfolding fallback_cover_letter_def
  by (rule sublist_skip, rule sublist_skip, rule sublist_skip, rule sublist_skip,
      rule sublist_skip, rule sublist_skip, rule sublist_append_rightI)

lemma cover_letter_for_down:
  "ss_ai_assistant ss = Some a \<Longrightarrow> generation_down a n job profile \<Longrightarrow>
   cover_letter_for ss n job profile = fallback_cover_letter job profile"
  by (auto simp: cover_letter_for_def generation_down_def generate_cover_letter_def fails_def
      split: option.splits reply.splits)

lemma apply_to_job_not_found:
  "find (\<lambda>p. pd_name p = name) ps = None \<Longrightarrow>
   apply_to_job e ss job name ps d = ([St_error ''Profile not found''], d)"
  by (simp add: apply_to_job_def)

lemma apply_to_job_refused:
  "find (\<lambda>p. pd_name p = name) ps = Some pdata \<Longrightarrow>
   e_fault_insert e \<or> list_ex (\<lambda>x. a_id x = e_uuid4 e) (applications d) \<Longrightarrow>
   apply_to_job e ss job name ps d = ([St_error ''Failed to submit application''], d)"
  by (auto simp: apply_to_job_def Let_def execute_query_def sql_insert_application_def)


lemma apply_to_job_stored:
  "find (\<lambda>p. pd_name p = name) ps = Some pdata \<Longrightarrow>
   \<not> e_fault_insert e \<Longrightarrow> \<not> list_ex (\<lambda>x. a_id x = e_uuid4 e) (applications d) \<Longrightarrow>
   apply_to_job e ss job name ps d =
     (St_success (''Successfully applied to '' @ job_title job @ '' at '' @ job_company job @ ''!'')
        # notify_applied e (ss_user_id ss) job (inserted e ss job pdata d),
      inserted e ss job pdata d)"
  by (simp add: apply_to_job_def Let_def execute_query_def sql_insert_application_def
      inserted_def new_application_def)

lemma notify_applied_warnings: "list_all is_warning (notify_applied e uid job d)"
  by (simp add: notify_applied_def Let_def send_email_notification_def is_warning_def
      split: option.splits)

lemma notify_applied_sent: "notify_applied (e\<lparr>e_smtp := mail_sent\<rparr>) uid job d = []"
  by (simp add: notify_applied_def Let_def send_email_notification_def mail_sent_def
      split: option.splits)

lemma notify_applied_smtp:
  "\<exists>w. notify_applied (e\<lparr>e_smtp := s\<rparr>) uid job d = w \<and> list_all is_warning w"
  by (simp add: notify_applied_warnings)

text \<open>
  C1. \<open>apply_to_job\<close> has three outcomes and no other. It reports success, and then the
  store is the old one with exactly one more application row, of status \<open>applied\<close> and
  with a cover letter that is not \<open>NULL\<close> (it may be empty), for this job and this user;
  the messages after the success are warnings only. Or it reports \<open>Profile not found\<close>,
  or \<open>Failed to submit application\<close>, and the store is the old one.
\<close>

theorem apply_to_job_all_or_nothing:
  "(\<exists>row cl w. apply_to_job e ss job name ps d =
        (St_success (''Successfully applied to '' @ job_title job @ '' at ''
                     @ job_company job @ ''!'') # w,
         d\<lparr>applications := applications d @ [row]\<rparr>)
      \<and> list_all is_warning w
      \<and> a_status row = Some ''applied'' \<and> a_cover_letter row = Some cl
      \<and> a_id row = e_uuid4 e \<and> a_job_id row = job_id job \<and> a_user_id row = ss_user_id ss)
   \<or> apply_to_job e ss job name ps d = ([St_error ''Profile not found''], d)
   \<or> apply_to_job e ss job name ps d = ([St_error ''Failed to submit application''], d)"
proof (cases "find (\<lambda>p. pd_name p = name) ps")
  case None
  then show ?thesis by (simp add: apply_to_job_not_found)
next
  case (Some pdata)
  show ?thesis
  proof (cases "e_fault_insert e \<or> list_ex (\<lambda>x. a_id x = e_uuid4 e) (applications d)")
    case True
    with Some show ?thesis by (simp add: apply_to_job_refused)
  next
    case False
    then have ok: "\<not> e_fault_insert e" "\<not> list_ex (\<lambda>x. a_id x = e_uuid4 e) (applications d)"
      by simp_all
    let ?row = "new_application e ss job pdata"
    let ?w = "notify_applied e (ss_user_id ss) job (inserted e ss job pdata d)"
    have run: "apply_to_job e ss job name ps d =
        (St_success (''Successfully applied to '' @ job_title job @ '' at ''
                     @ job_company job @ ''!'') # ?w,
         d\<lparr>applications := applications d @ [?row]\<rparr>)"
      using apply_to_job_stored [OF Some ok] by (simp add: inserted_def)
    have w: "list_all is_warning ?w" by (rule notify_applied_warnings)
    have row: "a_status ?row = Some ''applied''"
      "a_cover_letter ?row = Some (cover_letter_for ss (e_call e) job (job_profile_of e pdata))"
      "a_id ?row = e_uuid4 e" "a_job_id ?row = job_id job" "a_user_id ?row = ss_user_id ss"
      by (simp_all add: new_application_def)
    from run w row
    have "\<exists>row cl w. apply_to_job e ss job name ps d =
        (St_success (''Successfully applied to '' @ job_title job @ '' at ''
                     @ job_company job @ ''!'') # w,
         d\<lparr>applications := applications d @ [row]\<rparr>)
      \<and> list_all is_warning w
      \<and> a_status row = Some ''applied'' \<and> a_cover_letter row = Some cl
      \<and> a_id row = e_uuid4 e \<and> a_job_id row = job_id job \<and> a_user_id row = ss_user_id ss"
      by blast
    then show ?thesis by blast
  qed
qed

text \<open>
  C7. Whatever the mail system does, \<open>apply_to_job\<close> leaves the store that it leaves when
  the mail is sent, and shows the messages that it shows then, followed by warnings
  only: a notification that fails changes neither the stored application nor the
  success that is reported.
\<close>

theorem apply_to_job_mail_failure:
  "\<exists>w. apply_to_job (e\<lparr>e_smtp := s\<rparr>) ss job name ps d =
          (fst (apply_to_job (e\<lparr>e_smtp := mail_sent\<rparr>) ss job name ps d) @ w,
           snd (apply_to_job (e\<lparr>e_smtp := mail_sent\<rparr>) ss job name ps d))
        \<and> list_all is_warning w"
proof (cases "find (\<lambda>p. pd_name p = name) ps")
  case None
  then show ?thesis by (simp add: apply_to_job_not_found)
next
  case (Some pdata)
  show ?thesis
  proof (cases "e_fault_insert e \<or> list_ex (\<lambda>x. a_id x = e_uuid4 e) (applications d)")
    case True
    then have "apply_to_job (e\<lparr>e_smtp := t\<rparr>) ss job name ps d
                 = ([St_error ''Failed to submit application''], d)" for t
      using apply_to_job_refused [OF Some, of "e\<lparr>e_smtp := t\<rparr>" d ss job] by simp
    then show ?thesis by simp
  next
    case False
    then have stored: "apply_to_job (e\<lparr>e_smtp := t\<rparr>) ss job name ps d =
       (St_success (''Successfully applied to '' @ job_title job @ '' at '' @ job_company job @ ''!'')
          # notify_applied (e\<lparr>e_smtp := t\<rparr>) (ss_user_id ss) job (inserted e ss job pdata d),
        inserted e ss job pdata d)" for t
      using apply_to_job_stored [OF Some, of "e\<lparr>e_smtp := t\<rparr>" d ss job]
      by (simp add: inserted_def new_application_def job_profile_of_def)
    show ?thesis
      by (simp add: stored notify_applied_sent notify_applied_warnings)
  qed
qed

text \<open>
  C5 as stated fails: the job is \<open>Backend Engineer\<close> at \<open>Acme\<close>, the profile has the skills
  \<open>Python\<close> and \<open>SQL\<close>, and the session holds no assistant (no API key was saved). The
  application is stored with status \<open>applied\<close> and the empty cover letter: \<open>apply_to_job\<close>
  asks for a cover letter only \<open>if st.session_state.ai_assistant\<close>.
\<close>

theorem apply_without_assistant:
  "apply_to_job env0 session_plain job_J ''P'' [pd_P] db0 =
     ([St_success ''Successfully applied to Backend Engineer at Acme!''],
      db0\<lparr>applications :=
        [\<lparr>a_id = ''a1'', a_job_id = ''j1'', a_profile_id = ''p1'', a_user_id = ''u1'',
          a_status = Some ''applied'', a_applied_date = Some 1, a_cover_letter = Some '''',
          a_custom_answers = None, a_response_received = False, a_notes = None,
          a_created_at = 1\<rparr>]\<rparr>)"
  by (simp add: apply_to_job_def env0_def session_plain_def job_J_def pd_P_def db0_def
      execute_query_def sql_insert_application_def cover_letter_for_def notify_applied_def
      get_user_settings_def execute_query_fetch_def sql_select_settings_def empty_settings_def
      get_or_def dict_get_def truthy_def)

text \<open>
  C5, as the code has it. When the session holds an assistant and its text generation
  is down (no client, or the call for the cover letter raises or has no content), a
  successful \<open>apply_to_job\<close> stores one application of status \<open>applied\<close> whose cover letter
  is the fallback template, which contains the title of the job and the company.
\<close>

theorem apply_with_service_down:
  assumes "find (\<lambda>p. pd_name p = name) ps = Some pdata"
    and "ss_ai_assistant ss = Some a"
    and "generation_down a (e_call e) job (job_profile_of e pdata)"
    and "\<not> e_fault_insert e"
    and "\<not> list_ex (\<lambda>x. a_id x = e_uuid4 e) (applications d)"
  shows "\<exists>row cl. snd (apply_to_job e ss job name ps d)
                     = d\<lparr>applications := applications d @ [row]\<rparr>
      \<and> a_status row = Some ''applied'' \<and> a_cover_letter row = Some cl
      \<and> cl = fallback_cover_letter job (job_profile_of e pdata)
      \<and> sublist (job_title job) cl \<and> sublist (job_company job) cl"
proof -
  let ?row = "new_application e ss job pdata"
  let ?cl = "fallback_cover_letter job (job_profile_of e pdata)"
  have run: "snd (apply_to_job e ss job name ps d)
               = d\<lparr>applications := applications d @ [?row]\<rparr>"
    using apply_to_job_stored [OF assms(1,4,5)] by (simp add: inserted_def)
  have row: "a_status ?row = Some ''applied''" "a_cover_letter ?row = Some ?cl"
    by (simp_all add: new_application_def cover_letter_for_down [OF assms(2,3)])
  have "sublist (job_title job) ?cl" "sublist (job_company job) ?cl"
    by (rule fallback_has_title, rule fallback_has_company)
  with run row show ?thesis by blast
qed

theorem apply_with_service_down_witness:
  "find (\<lambda>p. pd_name p = ''P'') [pd_P] = Some pd_P
   \<and> ss_ai_assistant session_down = Some assistant_down
   \<and> generation_down assistant_down (e_call env0) job_J (job_profile_of env0 pd_P)
   \<and> prof_skills (job_profile_of env0 pd_P) = [''Python'', ''SQL'']
   \<and> job_title job_J = ''Backend Engineer'' \<and> job_company job_J = ''Acme''
   \<and> (\<exists>row cl. snd (apply_to_job env0 session_down job_J ''P'' [pd_P] db0)
                     = db0\<lparr>applications := applications db0 @ [row]\<rparr>
      \<and> a_status row = Some ''applied'' \<and> a_cover_letter row = Some cl
      \<and> cl = fallback_cover_letter job_J (job_profile_of env0 pd_P)
      \<and> sublist ''Backend Engineer'' cl \<and> sublist ''Acme'' cl)"
proof -
  have 1: "find (\<lambda>p. pd_name p = ''P'') [pd_P] = Some pd_P" by (simp add: pd_P_def)
  have 2: "ss_ai_assistant session_down = Some assistant_down" by (simp add: session_down_def)
  have 3: "generation_down assistant_down (e_call env0) job_J (job_profile_of env0 pd_P)"
    by (simp add: generation_down_def assistant_down_def)
  have 4: "\<not> e_fault_insert env0" by (simp add: env0_def)
  have 5: "\<not> list_ex (\<lambda>x. a_id x = e_uuid4 env0) (applications db0)" by (simp add: db0_def)
  have 6: "prof_skills (job_profile_of env0 pd_P) = [''Python'', ''SQL'']"
    by (simp add: job_profile_of_def pd_P_def comma_list_def)
  have 7: "job_title job_J = ''Backend Engineer''" "job_company job_J = ''Acme''"
    by (simp_all add: job_J_def)
  show ?thesis
    using 1 2 3 6 7 apply_with_service_down [OF 1 2 3 4 5]
    by simp
qed

section \<open>Updating an application\<close>

lemma map_unless_hit:
  "\<not> list_ex P xs \<Longrightarrow> map (\<lambda>r. if P r then f r else r) xs = xs"
  by (induction xs) auto

text \<open>
  C6, as the code has it. When no application has both the given id and the given
  owner, \<open>update_application_status\<close> leaves the store as it is and returns what
  \<open>execute_query\<close> returns: \<open>True\<close>, or \<open>False\<close> when the store raised. It reports nothing
  else.
\<close>

theorem update_of_unresolved_pair:
  assumes "\<not> list_ex (\<lambda>r. a_id r = app_id \<and> a_user_id r = uid) (applications d)"
  shows "update_application_status fault uid app_id status notes d = (\<not> fault, d)"
proof -
  have "map (\<lambda>r. if a_id r = app_id \<and> a_user_id r = uid
                  then r\<lparr>a_status := Some status, a_notes := Some notes\<rparr> else r)
          (applications d) = applications d"
    using assms by (rule map_unless_hit)
  then show ?thesis
    by (simp add: update_application_status_def execute_query_def sql_update_application_def)
qed

theorem update_of_unresolved_pair_witness:
  "\<not> list_ex (\<lambda>r. a_id r = ''nope'' \<and> a_user_id r = ''bob'') (applications db_B)
   \<and> update_application_status False ''bob'' ''nope'' ''rejected'' '''' db_B = (\<not> False, db_B)"
proof -
  have h: "\<not> list_ex (\<lambda>r. a_id r = ''nope'' \<and> a_user_id r = ''bob'') (applications db_B)"
    by (simp add: db_B_def)
  show ?thesis
    using h update_of_unresolved_pair [OF h, of False "''rejected''" "''''"] by simp
qed

text \<open>
  C6 as stated fails: \<open>alice\<close> updates the application \<open>a7\<close>, which belongs to \<open>bob\<close>. The
  store is unchanged, the result is \<open>True\<close>, and the page shows \<open>Application updated!\<close>:
  there is no not-found error.
\<close>

theorem update_of_foreign_application_reports_success:
  "update_application_status False ''alice'' ''a7'' ''interview'' ''mine'' db_B = (True, db_B)
   \<and> fst (update_button False ''alice'' ''a7'' ''interview'' ''mine'' db_B)
       = [St_success ''Application updated!'']"
  by (simp add: update_application_status_def update_button_def execute_query_def
      sql_update_application_def db_B_def)

section \<open>Saving settings\<close>

lemma filter_own_of_others:
  "filter (\<lambda>r. s_user_id r = uid) (filter (\<lambda>x. s_user_id x \<noteq> uid) xs) = []"
  by (induction xs) auto

lemma get_user_settings_of_row:
  "sql_select_settings uid d = row # rest \<Longrightarrow>
   get_user_settings False uid d =
     \<lparr>sd_openai_api_key = Some (get_or (s_openai_api_key row) ''''),
      sd_email_settings = Some (get_or (s_email_settings row) []),
      sd_automation_settings = Some (get_or (s_automation_settings row) []),
      sd_notification_settings = Some (get_or (s_notification_settings row) [])\<rparr>"
  by (simp add: get_user_settings_def execute_query_fetch_def)

text \<open>
  When the row of the user is read and the statements are executed, a save is a merge:
  the settings read afterwards are the settings read before, updated by the given
  dictionary, so a category that is given has the given value and a category that is
  not given has the value it had. The rows of other users are kept.
\<close>

lemma save_user_settings_merges:
  assumes "sql_select_settings uid d \<noteq> []"
  shows "\<exists>d'. save_user_settings False False uid new d = (True, d')
      \<and> get_user_settings False uid d' = dict_update (get_user_settings False uid d) new
      \<and> filter (\<lambda>r. s_user_id r \<noteq> uid) (settings d')
          = filter (\<lambda>r. s_user_id r \<noteq> uid) (settings d)"
proof -
  from assms obtain row rest where sel: "sql_select_settings uid d = row # rest"
    by (cases "sql_select_settings uid d") auto
  let ?cur = "dict_update (get_user_settings False uid d) new"
  let ?r = "\<lparr>s_user_id = uid,
             s_openai_api_key = Some (get_or (sd_openai_api_key ?cur) ''''),
             s_email_settings = Some (get_or (sd_email_settings ?cur) []),
             s_automation_settings = Some (get_or (sd_automation_settings ?cur) []),
             s_notification_settings = Some (get_or (sd_notification_settings ?cur) [])\<rparr>"
  let ?d' = "d\<lparr>settings := filter (\<lambda>x. s_user_id x \<noteq> uid) (settings d) @ [?r]\<rparr>"
  have run: "save_user_settings False False uid new d = (True, ?d')"
    by (simp add: save_user_settings_def Let_def execute_query_def sql_replace_settings_def)
  have "sql_select_settings uid ?d' = [?r]"
    by (simp add: sql_select_settings_def filter_own_of_others)
  then have "get_user_settings False uid ?d' =
     \<lparr>sd_openai_api_key = Some (get_or (sd_openai_api_key ?cur) ''''),
      sd_email_settings = Some (get_or (sd_email_settings ?cur) []),
      sd_automation_settings = Some (get_or (sd_automation_settings ?cur) []),
      sd_notification_settings = Some (get_or (sd_notification_settings ?cur) [])\<rparr>"
    by (simp add: get_user_settings_of_row get_or_def)
  also have "\<dots> = ?cur"
    by (simp add: get_user_settings_of_row [OF sel] dict_update_def get_or_def
        split: option.splits)
  finally have view: "get_user_settings False uid ?d' = ?cur" .
  have frame: "filter (\<lambda>r. s_user_id r \<noteq> uid) (settings ?d')
          = filter (\<lambda>r. s_user_id r \<noteq> uid) (settings d)"
    by simp
  from run view frame show ?thesis by blast
qed

lemma save_user_settings_merges_at_u1:
  "sql_select_settings ''u1'' db_S \<noteq> []
   \<and> dict_update (get_user_settings False ''u1'' db_S) new_automation =
       \<lparr>sd_openai_api_key = Some ''sk-secret'',
        sd_email_settings = Some [(''from_email'', JStr ''ann@x.org''),
          (''password'', JStr ''hunter2''), (''smtp_server'', JStr ''smtp.gmail.com''),
          (''enabled'', JBool True)],
        sd_automation_settings = Some [(''auto_apply'', JBool True), (''daily_limit'', JInt 10)],
        sd_notification_settings = Some []\<rparr>
   \<and> (\<exists>d'. save_user_settings False False ''u1'' new_automation db_S = (True, d')
      \<and> get_user_settings False ''u1'' d'
          = dict_update (get_user_settings False ''u1'' db_S) new_automation
      \<and> filter (\<lambda>r. s_user_id r \<noteq> ''u1'') (settings d')
          = filter (\<lambda>r. s_user_id r \<noteq> ''u1'') (settings db_S))"
proof -
  have h: "sql_select_settings ''u1'' db_S \<noteq> []"
    by (simp add: sql_select_settings_def db_S_def db0_def)
  have v: "dict_update (get_user_settings False ''u1'' db_S) new_automation =
       \<lparr>sd_openai_api_key = Some ''sk-secret'',
        sd_email_settings = Some [(''from_email'', JStr ''ann@x.org''),
          (''password'', JStr ''hunter2''), (''smtp_server'', JStr ''smtp.gmail.com''),
          (''enabled'', JBool True)],
        sd_automation_settings = Some [(''auto_apply'', JBool True), (''daily_limit'', JInt 10)],
        sd_notification_settings = Some []\<rparr>"
    by (simp add: dict_update_def get_user_settings_def execute_query_fetch_def
        sql_select_settings_def db_S_def db0_def new_automation_def get_or_def)
  show ?thesis
    using h v save_user_settings_merges [OF h, of new_automation] by blast
qed

text \<open>
  C8. A save is to keep every category that it is not given. \<open>save_user_settings\<close> merges
  into what \<open>get_user_settings\<close> returns, and that is \<open>{}\<close> when the \<open>SELECT\<close> raises, as it is
  for a user without a row. User \<open>u1\<close> has stored an API key and email settings; the
  \<open>SELECT\<close> of a save of \<open>automation_settings\<close> raises and its \<open>INSERT OR REPLACE\<close> is
  executed. The save returns \<open>True\<close>, and the row of \<open>u1\<close> holds the empty API key and the
  empty email settings.
\<close>

theorem save_after_failed_read_loses_settings:
  "get_user_settings False ''u1'' db_S =
     \<lparr>sd_openai_api_key = Some ''sk-secret'',
      sd_email_settings = Some [(''from_email'', JStr ''ann@x.org''),
        (''password'', JStr ''hunter2''), (''smtp_server'', JStr ''smtp.gmail.com''),
        (''enabled'', JBool True)],
      sd_automation_settings = Some [], sd_notification_settings = Some []\<rparr>
   \<and> save_user_settings True False ''u1'' new_automation db_S =
       (True, db_S\<lparr>settings :=
          [\<lparr>s_user_id = ''u1'', s_openai_api_key = Some '''', s_email_settings = Some [],
            s_automation_settings = Some [(''auto_apply'', JBool True), (''daily_limit'', JInt 10)],
            s_notification_settings = Some []\<rparr>]\<rparr>)
   \<and> get_user_settings False ''u1''
         (snd (save_user_settings True False ''u1'' new_automation db_S)) =
     \<lparr>sd_openai_api_key = Some '''', sd_email_settings = Some [],
      sd_automation_settings = Some [(''auto_apply'', JBool True), (''daily_limit'', JInt 10)],
      sd_notification_settings = Some []\<rparr>"
  by (simp add: save_user_settings_def get_user_settings_def execute_query_fetch_def
      execute_query_def sql_replace_settings_def sql_select_settings_def dict_update_def
      empty_settings_def get_or_def new_automation_def db_S_def db0_def)

section \<open>Deleting an account\<close>

text \<open>
  Each \<open>DELETE\<close> that is executed leaves no row of the user in its table, and no
  statement touches the jobs, whether it is executed or not.
\<close>

lemma delete_user_account_removes_rows:
  "(\<not> f1 \<longrightarrow> list_all (\<lambda>r. a_user_id r \<noteq> uid)
              (applications (delete_user_account f1 f2 f3 f4 uid d)))
   \<and> (\<not> f2 \<longrightarrow> list_all (\<lambda>r. p_user_id r \<noteq> uid)
              (profiles (delete_user_account f1 f2 f3 f4 uid d)))
   \<and> (\<not> f3 \<longrightarrow> list_all (\<lambda>r. s_user_id r \<noteq> uid)
              (settings (delete_user_account f1 f2 f3 f4 uid d)))
   \<and> jobs (delete_user_account f1 f2 f3 f4 uid d) = jobs d"
  by (simp add: delete_user_account_def Let_def execute_query_def sql_delete_applications_def
      sql_delete_profiles_def sql_delete_settings_def sql_delete_user_def list_all_iff)

text \<open>
  C9. Deleting an account is to remove every application, profile and settings row of
  the user. \<open>delete_user_account\<close> does not look at the result of its statements, and
  \<open>execute_query\<close> raises nothing, so the \<open>except\<close> of \<open>delete_user_account\<close> is never
  entered. The \<open>DELETE\<close> on the applications raises and the other three are executed:
  the account of \<open>bob\<close> is gone and the application of \<open>bob\<close> is still stored.
\<close>

theorem delete_with_failed_statement_keeps_rows:
  "applications db_D =
     [\<lparr>a_id = ''a7'', a_job_id = ''j1'', a_profile_id = ''p9'', a_user_id = ''bob'',
       a_status = Some ''applied'', a_applied_date = Some 1, a_cover_letter = Some '''',
       a_custom_answers = None, a_response_received = False, a_notes = None,
       a_created_at = 1\<rparr>]
   \<and> applications (delete_user_account True False False False ''bob'' db_D) = applications db_D
   \<and> users (delete_user_account True False False False ''bob'' db_D) = []"
  by (simp add: delete_user_account_def execute_query_def sql_delete_applications_def
      sql_delete_profiles_def sql_delete_settings_def sql_delete_user_def db_D_def db_B_def
      db0_def)

end
